theory Spec2Isabelle
  imports Complex_Main "HOL-Library.Sublist"
begin

section \<open>A point-of-sale checkout: discounts, payment methods, orders, transaction log\<close>

text \<open>
  The development embeds the single source file \<^verbatim>\<open>programm#1.py\<close>.

  Conventions of the embedding.
  \<^item> Python \<^verbatim>\<open>float\<close> amounts are idealised as exact rationals (\<^typ>\<open>rat\<close>): sums,
    differences and comparisons are the mathematical ones, and \<^verbatim>\<open>nan\<close>/\<^verbatim>\<open>inf\<close> do not
    exist. Quantities are Python's unbounded \<^verbatim>\<open>int\<close>.
    The conversion of a quantity to \<^verbatim>\<open>float\<close> in \<^verbatim>\<open>quantity * price\<close> is exact here;
    Python raises \<^verbatim>\<open>OverflowError\<close> there for a quantity beyond the range of
    \<^verbatim>\<open>float\<close>, and such quantities are outside the idealisation.
  \<^item> Python \<^verbatim>\<open>str\<close> is \<^typ>\<open>string\<close>; \<^verbatim>\<open>\d\<close> is read as the ASCII digits.
  \<^item> A \<^verbatim>\<open>dict\<close> is a map. \<^verbatim>\<open>payment_details\<close> maps field names to strings, so
    \<^verbatim>\<open>payment_details.get(k)\<close> is a \<^typ>\<open>string option\<close> with \<^term>\<open>None\<close> for Python's
    \<^verbatim>\<open>None\<close>. \<^verbatim>\<open>payment_details\<close> itself is always a dict.
  \<^item> Every method of a payment-method object is a function from the object's state to a
    result and the state after the call. An exception is the \<^term>\<open>Inl\<close> branch of a sum.
  \<^item> Console output (\<^verbatim>\<open>print\<close>) is not modelled, apart from the last message of
    \<^verbatim>\<open>main\<close>, which is its result.
\<close>

datatype py_error = KeyError | TypeError

type_synonym ledger = "string \<rightharpoonup> rat"
type_synonym details = "string \<rightharpoonup> string"

subsection \<open>Discount strategies\<close>

datatype discount = PercentageDiscount rat | FixedAmountDiscount rat

fun calculate_discount :: "discount \<Rightarrow> rat \<Rightarrow> rat" where
  "calculate_discount (PercentageDiscount percentage) amount = amount * (percentage / 100)"
| "calculate_discount (FixedAmountDiscount discount_amount) amount = discount_amount"

subsection \<open>Regular expressions and truthiness used by \<^verbatim>\<open>validate\<close>\<close>

definition is_digit :: "char \<Rightarrow> bool" where
  "is_digit c = (c \<in> set ''0123456789'')"

text \<open>
  \<^verbatim>\<open>$\<close> matches at the end of the string and also just before a newline that ends the
  string: \<open>eol_body s\<close> is the part of \<open>s\<close> that the pattern before \<^verbatim>\<open>$\<close> has to cover.
\<close>

definition eol_body :: "string \<Rightarrow> string" where
  "eol_body s = (if s \<noteq> [] \<and> last s = CHR 0x0A then butlast s else s)"

text \<open>\<^verbatim>\<open>re.match(r"^\d{n}$", s)\<close>\<close>

definition match_digits :: "nat \<Rightarrow> string \<Rightarrow> bool" where
  "match_digits n s = (length (eol_body s) = n \<and> list_all is_digit (eol_body s))"

text \<open>\<^verbatim>\<open>re.match(r"^\d{2}/\d{2}$", s)\<close>\<close>

definition match_expiry :: "string \<Rightarrow> bool" where
  "match_expiry s =
     (case eol_body s of
        [a, b, c, d, e] \<Rightarrow> is_digit a \<and> is_digit b \<and> c = CHR ''/'' \<and> is_digit d \<and> is_digit e
      | _ \<Rightarrow> False)"

text \<open>
  \<^verbatim>\<open>re.match(r"[^@]+@[^@]+\.[^@]+", s)\<close>: anchored at the start only. The first group is
  everything before the first \<^verbatim>\<open>@\<close> and must not be empty. After that \<^verbatim>\<open>@\<close>, within the
  run \<open>run\<close> of characters up to the next \<^verbatim>\<open>@\<close> (or the end), some \<^verbatim>\<open>.\<close> must have at
  least one character of the run before it and at least one after it.
\<close>

definition match_email :: "string \<Rightarrow> bool" where
  "match_email s =
     (let local_part = takeWhile (\<lambda>c. c \<noteq> CHR ''@'') s;
          rest = dropWhile (\<lambda>c. c \<noteq> CHR ''@'') s
      in local_part \<noteq> [] \<and> rest \<noteq> [] \<and>
         (let run = takeWhile (\<lambda>c. c \<noteq> CHR ''@'') (tl rest)
          in CHR ''.'' \<in> set (butlast (tl run))))"

text \<open>
  \<^verbatim>\<open>not v or not matches(v)\<close> for a value \<open>v\<close> that is \<^verbatim>\<open>None\<close> or a string: \<^verbatim>\<open>None\<close>
  and the empty string are falsy, and \<^verbatim>\<open>or\<close> evaluates its right operand only for a
  non-empty string.
\<close>

definition missing_or_bad :: "string option \<Rightarrow> (string \<Rightarrow> bool) \<Rightarrow> bool" where
  "missing_or_bad v matches = (case v of None \<Rightarrow> True | Some s \<Rightarrow> s = [] \<or> \<not> matches s)"

text \<open>
  Dictionary access with a key that may be \<^verbatim>\<open>None\<close>. The ledgers only ever hold string
  keys, so \<^verbatim>\<open>None\<close> is never found.
\<close>

definition dict_get :: "ledger \<Rightarrow> string option \<Rightarrow> rat option" where
  "dict_get m k = (case k of None \<Rightarrow> None | Some s \<Rightarrow> m s)"

subsection \<open>Payment methods\<close>

datatype payment_method =
    CreditCardPayment ledger
  | PayPalPayment ledger
  | CryptocurrencyPayment ledger

text \<open>The constructors \<^verbatim>\<open>__init__\<close> with their seeded ledgers.\<close>

definition CreditCardPayment_init :: payment_method where
  "CreditCardPayment_init = CreditCardPayment [''1234567891234567'' \<mapsto> 500]"

definition PayPalPayment_init :: payment_method where
  "PayPalPayment_init = PayPalPayment [''Rand@gmail.com'' \<mapsto> 500, ''Sama@gmail.com'' \<mapsto> 1000]"

definition CryptocurrencyPayment_init :: payment_method where
  "CryptocurrencyPayment_init =
     CryptocurrencyPayment [''1BoatSLRHtKNngkdXEeobR76b53LETtpyT'' \<mapsto> 1000]"

text \<open>The ledger of a payment method and the name of the field that identifies the payer.\<close>

fun ledger_of :: "payment_method \<Rightarrow> ledger" where
  "ledger_of (CreditCardPayment approved_cards) = approved_cards"
| "ledger_of (PayPalPayment approved_emails) = approved_emails"
| "ledger_of (CryptocurrencyPayment mock_wallets) = mock_wallets"

fun id_field :: "payment_method \<Rightarrow> string" where
  "id_field (CreditCardPayment _) = ''card_number''"
| "id_field (PayPalPayment _) = ''email''"
| "id_field (CryptocurrencyPayment _) = ''wallet_address''"

fun with_ledger :: "payment_method \<Rightarrow> ledger \<Rightarrow> payment_method" where
  "with_ledger (CreditCardPayment _) m = CreditCardPayment m"
| "with_ledger (PayPalPayment _) m = PayPalPayment m"
| "with_ledger (CryptocurrencyPayment _) m = CryptocurrencyPayment m"

fun validate :: "payment_method \<Rightarrow> details \<Rightarrow> bool \<times> payment_method" where
  "validate (CreditCardPayment approved_cards) payment_details =
     (let card_number = payment_details ''card_number'';
          expiry_date = payment_details ''expiry_date'';
          cvv = payment_details ''cvv''
      in if missing_or_bad card_number (match_digits 16)
         then (False, CreditCardPayment approved_cards)
         else if missing_or_bad expiry_date match_expiry
         then (False, CreditCardPayment approved_cards)
         else if missing_or_bad cvv (match_digits 3)
         then (False, CreditCardPayment approved_cards)
         else if dict_get approved_cards card_number = None
         then (False, CreditCardPayment approved_cards)
         else (True, CreditCardPayment approved_cards))"
| "validate (PayPalPayment approved_emails) payment_details =
     (let email = payment_details ''email''
      in if missing_or_bad email match_email
         then (False, PayPalPayment approved_emails)
         else if dict_get approved_emails email = None
         then (False, PayPalPayment approved_emails)
         else (True, PayPalPayment approved_emails))"
| "validate (CryptocurrencyPayment mock_wallets) payment_details =
     (let wallet_address = payment_details ''wallet_address''
      in if missing_or_bad wallet_address (\<lambda>w. length w = 34)
         then (False, CryptocurrencyPayment mock_wallets)
         else if dict_get mock_wallets wallet_address = None
         then (False, CryptocurrencyPayment mock_wallets)
         else (True, CryptocurrencyPayment mock_wallets))"

fun check_balance :: "payment_method \<Rightarrow> details \<Rightarrow> rat \<Rightarrow> bool \<times> payment_method" where
  "check_balance (CreditCardPayment approved_cards) payment_details amount =
     (let card_number = payment_details ''card_number''
      in case dict_get approved_cards card_number of
           Some balance \<Rightarrow> (balance \<ge> amount, CreditCardPayment approved_cards)
         | None \<Rightarrow> (False, CreditCardPayment approved_cards))"
| "check_balance (PayPalPayment approved_emails) payment_details amount =
     (let email = payment_details ''email''
      in ((case dict_get approved_emails email of Some balance \<Rightarrow> balance | None \<Rightarrow> 0) \<ge> amount,
          PayPalPayment approved_emails))"
| "check_balance (CryptocurrencyPayment mock_wallets) payment_details amount =
     (let wallet_address = payment_details ''wallet_address''
      in ((case dict_get mock_wallets wallet_address of Some balance \<Rightarrow> balance | None \<Rightarrow> 0)
            \<ge> amount,
          CryptocurrencyPayment mock_wallets))"

text \<open>
  \<^verbatim>\<open>d[k] -= amount\<close>: reads \<^verbatim>\<open>d[k]\<close>, which raises \<^verbatim>\<open>KeyError\<close> for a key that is not in
  the dictionary, then stores the difference.
\<close>

definition dict_decrement :: "ledger \<Rightarrow> string option \<Rightarrow> rat \<Rightarrow> py_error + ledger" where
  "dict_decrement m k amount =
     (case k of
        None \<Rightarrow> Inl KeyError
      | Some s \<Rightarrow> (case m s of None \<Rightarrow> Inl KeyError | Some balance \<Rightarrow> Inr (m(s \<mapsto> balance - amount))))"

fun process_payment ::
  "payment_method \<Rightarrow> rat \<Rightarrow> details \<Rightarrow> py_error + (bool \<times> payment_method)" where
  "process_payment (CreditCardPayment approved_cards) amount payment_details =
     (let card_number = payment_details ''card_number'';
          (enough, self) = check_balance (CreditCardPayment approved_cards) payment_details amount
      in if \<not> enough then Inr (False, self)
         else (case dict_decrement (ledger_of self) card_number amount of
                 Inl e \<Rightarrow> Inl e
               | Inr m \<Rightarrow> Inr (True, CreditCardPayment m)))"
| "process_payment (PayPalPayment approved_emails) amount payment_details =
     (let email = payment_details ''email'';
          (enough, self) = check_balance (PayPalPayment approved_emails) payment_details amount
      in if \<not> enough then Inr (False, self)
         else (case dict_decrement (ledger_of self) email amount of
                 Inl e \<Rightarrow> Inl e
               | Inr m \<Rightarrow> Inr (True, PayPalPayment m)))"
| "process_payment (CryptocurrencyPayment mock_wallets) amount payment_details =
     (let wallet_address = payment_details ''wallet_address'';
          (enough, self) =
             check_balance (CryptocurrencyPayment mock_wallets) payment_details amount
      in if \<not> enough then Inr (False, self)
         else (case dict_decrement (ledger_of self) wallet_address amount of
                 Inl e \<Rightarrow> Inl e
               | Inr m \<Rightarrow> Inr (True, CryptocurrencyPayment m)))"

fun get_discount :: "payment_method \<Rightarrow> discount option" where
  "get_discount (CreditCardPayment _) = Some (FixedAmountDiscount 30)"
| "get_discount (PayPalPayment _) = Some (PercentageDiscount 10)"
| "get_discount (CryptocurrencyPayment _) = Some (PercentageDiscount 20)"

subsection \<open>Orders\<close>

record order =
  items :: "string list"
  quantities :: "int list"
  prices :: "rat list"
  status :: string
  payment_method :: "payment_method option"
  discount_strategy :: "discount option"

definition Order_init :: order where
  "Order_init = \<lparr>items = [], quantities = [], prices = [], status = ''open'',
                 payment_method = None, discount_strategy = None\<rparr>"

definition add_item :: "order \<Rightarrow> string \<Rightarrow> int \<Rightarrow> rat \<Rightarrow> order" where
  "add_item self name quantity price =
     self\<lparr>items := items self @ [name],
          quantities := quantities self @ [quantity],
          prices := prices self @ [price]\<rparr>"

definition total_price :: "order \<Rightarrow> rat" where
  "total_price self =
     fold (\<lambda>(quantity, price) total. total + of_int quantity * price)
          (zip (quantities self) (prices self)) 0"

definition set_payment_method :: "order \<Rightarrow> payment_method \<Rightarrow> order" where
  "set_payment_method self pm = self\<lparr>payment_method := Some pm\<rparr>"

definition set_discount_strategy :: "order \<Rightarrow> discount \<Rightarrow> order" where
  "set_discount_strategy self ds = self\<lparr>discount_strategy := Some ds\<rparr>"

definition apply_discounts :: "order \<Rightarrow> rat" where
  "apply_discounts self =
     (case discount_strategy self of
        Some ds \<Rightarrow> calculate_discount ds (total_price self)
      | None \<Rightarrow> 0)"

text \<open>Lines 224 to 227 of \<^verbatim>\<open>Order.pay\<close>: the amount handed to \<^verbatim>\<open>process_payment\<close>.\<close>

definition final_amount :: "order \<Rightarrow> rat" where
  "final_amount self =
     (let discount = apply_discounts self;
          amount = total_price self - discount
      in if amount < 0 then 0 else amount)"

definition pay :: "order \<Rightarrow> details \<Rightarrow> py_error + (bool \<times> order)" where
  "pay self payment_details =
     (case payment_method self of
        None \<Rightarrow> Inr (True, self)
      | Some pm \<Rightarrow>
          (let (valid, pm1) = validate pm payment_details
           in if valid
              then (case process_payment pm1 (final_amount self) payment_details of
                      Inl e \<Rightarrow> Inl e
                    | Inr (charged, pm2) \<Rightarrow>
                        if charged
                        then Inr (True, self\<lparr>payment_method := Some pm2, status := ''paid''\<rparr>)
                        else Inr (False, self\<lparr>payment_method := Some pm2\<rparr>))
              else Inr (False, self\<lparr>payment_method := Some pm1\<rparr>)))"

subsection \<open>The transaction logger\<close>

text \<open>
  \<^verbatim>\<open>f"{amount:.2f}"\<close> on the idealised amounts: the sign, then the absolute value rounded
  to hundredths (a tie goes to the even neighbour), in decimal with two fractional digits.
\<close>

definition round_half_even :: "rat \<Rightarrow> int" where
  "round_half_even x =
     (let f = \<lfloor>x\<rfloor>; r = x - of_int f
      in if r < 1 / 2 then f else if 1 / 2 < r then f + 1 else if even f then f else f + 1)"

definition digit_char :: "nat \<Rightarrow> char" where
  "digit_char d = ''0123456789'' ! (d mod 10)"

fun dec_digits :: "nat \<Rightarrow> string" where
  "dec_digits n = (if n < 10 then [digit_char n] else dec_digits (n div 10) @ [digit_char n])"

definition format_2f :: "rat \<Rightarrow> string" where
  "format_2f amount =
     (let hundredths = nat (round_half_even (\<bar>amount\<bar> * 100))
      in (if amount < 0 then ''-'' else []) @ dec_digits (hundredths div 100) @ ''.'' @
         [digit_char (hundredths div 10), digit_char hundredths])"

text \<open>
  \<^verbatim>\<open>s.replace(old, new)\<close> for a non-empty \<open>old\<close>: every occurrence, left to right, without
  overlaps. (The only call, in \<^verbatim>\<open>main\<close>, has \<open>old\<close> = \<^verbatim>\<open>'Payment'\<close>; for an empty \<open>old\<close>
  the model returns \<open>s\<close>.)
\<close>

function str_replace :: "string \<Rightarrow> string \<Rightarrow> string \<Rightarrow> string" where
  "str_replace old new [] = []"
| "str_replace old new (c # cs) =
     (if old \<noteq> [] \<and> prefix old (c # cs)
      then new @ str_replace old new (drop (length old) (c # cs))
      else c # str_replace old new cs)"
  by pat_completeness auto
termination
  by (relation "measure (\<lambda>(old, new, s). length s)") auto

text \<open>\<^verbatim>\<open>payment_method.__class__.__name__\<close>\<close>

fun class_name :: "payment_method \<Rightarrow> string" where
  "class_name (CreditCardPayment _) = ''CreditCardPayment''"
| "class_name (PayPalPayment _) = ''PayPalPayment''"
| "class_name (CryptocurrencyPayment _) = ''CryptocurrencyPayment''"

datatype logger = FileLogger string

text \<open>
  \<^verbatim>\<open>TransactionLogger\<close> is an abstract base class: \<^verbatim>\<open>log_transaction\<close> is an
  \<^verbatim>\<open>@abstractmethod\<close>, so calling the class raises \<^verbatim>\<open>TypeError\<close> and no object exists.
  \<^verbatim>\<open>FileLogger\<close> overrides the method and can be instantiated.
\<close>

definition TransactionLogger_init :: "string \<Rightarrow> py_error + logger" where
  "TransactionLogger_init filename = Inl TypeError"

definition FileLogger_init :: "string \<Rightarrow> py_error + logger" where
  "FileLogger_init filename = Inr (FileLogger filename)"

text \<open>
  \<^verbatim>\<open>log_transaction\<close> appends one line to the log file, given as the list of its lines.
  \<open>now\<close> is the text of \<^verbatim>\<open>datetime.now()\<close>.
\<close>

definition log_line :: "string \<Rightarrow> string \<Rightarrow> rat \<Rightarrow> bool \<Rightarrow> string" where
  "log_line now method_label amount success =
     (let status = (if success then ''Success'' else ''Failure'')
      in now @ '': '' @ method_label @ '' payment of $'' @ format_2f amount @ '' - '' @ status)"

definition log_transaction ::
  "logger \<Rightarrow> string \<Rightarrow> rat \<Rightarrow> bool \<Rightarrow> string \<Rightarrow> string list \<Rightarrow> string list" where
  "log_transaction self method_label amount success now logfile =
     logfile @ [log_line now method_label amount success]"

subsection \<open>The checkout driver\<close>

text \<open>
  What the user types: the items entered before \<^verbatim>\<open>done\<close> (already parsed by \<^verbatim>\<open>int\<close> and
  \<^verbatim>\<open>float\<close>), the menu choice, and the answers to the prompts of the chosen method.
\<close>

record checkout_input =
  in_items :: "(string \<times> int \<times> rat) list"
  in_method_choice :: string
  in_card_number :: string
  in_expiry_date :: string
  in_cvv :: string
  in_email :: string
  in_wallet_address :: string
  in_name :: string
  in_address :: string

definition collect_items :: "checkout_input \<Rightarrow> order" where
  "collect_items inp = fold (\<lambda>(name, quantity, price) order. add_item order name quantity price)
                            (in_items inp) Order_init"

definition collect_details :: "payment_method \<Rightarrow> checkout_input \<Rightarrow> details" where
  "collect_details pm inp =
     (case pm of
        CreditCardPayment _ \<Rightarrow>
          [''card_number'' \<mapsto> in_card_number inp, ''expiry_date'' \<mapsto> in_expiry_date inp,
           ''cvv'' \<mapsto> in_cvv inp]
      | PayPalPayment _ \<Rightarrow> [''email'' \<mapsto> in_email inp]
      | CryptocurrencyPayment _ \<Rightarrow> [''wallet_address'' \<mapsto> in_wallet_address inp])"

text \<open>Lines 292 to 296 of \<^verbatim>\<open>main\<close>: the order gets the method and the method's discount.\<close>

definition wire_payment_method :: "order \<Rightarrow> payment_method \<Rightarrow> order" where
  "wire_payment_method order pm =
     (let order = set_payment_method order pm
      in case get_discount pm of
           Some ds \<Rightarrow> set_discount_strategy order ds
         | None \<Rightarrow> order)"

text \<open>
  \<^verbatim>\<open>main\<close>: the result is the exception that ended the run or the last message printed,
  together with the lines of \<^verbatim>\<open>transactions.log\<close> after the run.
\<close>

definition main ::
  "checkout_input \<Rightarrow> string \<Rightarrow> string list \<Rightarrow> (py_error + string) \<times> string list" where
  "main inp now logfile =
     (let order = collect_items inp;
          method_choice = in_method_choice inp
      in if method_choice \<notin> {''1'', ''2'', ''3'', ''4''} then (Inr ''Invalid choice.'', logfile)
         else
          (let payment_method =
                (if method_choice = ''1'' then Some CreditCardPayment_init
                 else if method_choice = ''2'' then Some PayPalPayment_init
                 else if method_choice = ''3'' then Some CryptocurrencyPayment_init
                 else None)
           in case payment_method of
                Some pm \<Rightarrow>
                  (let order = wire_payment_method order pm;
                       payment_details = collect_details pm inp
                   in case pay order payment_details of
                        Inl e \<Rightarrow> (Inl e, logfile)
                      | Inr (success, order) \<Rightarrow>
                          (case FileLogger_init ''transactions.log'' of
                             Inl e \<Rightarrow> (Inl e, logfile)
                           | Inr logger \<Rightarrow>
                               (let payment_method_name =
                                      str_replace ''Payment'' [] (class_name pm);
                                    logfile = log_transaction logger payment_method_name
                                            (total_price order) success now logfile
                                in (Inr (if success then ''Payment successful!''
                                         else ''Payment failed.''), logfile))))
              | None \<Rightarrow>
                  (let payment_details = [''name'' \<mapsto> in_name inp, ''address'' \<mapsto> in_address inp]
                   in case pay order payment_details of
                        Inl e \<Rightarrow> (Inl e, logfile)
                      | Inr (success, order) \<Rightarrow>
                          (case TransactionLogger_init ''transactions.log'' of
                             Inl e \<Rightarrow> (Inl e, logfile)
                           | Inr logger \<Rightarrow>
                               (let logfile = log_transaction logger ''cash'' (total_price order)
                                            success now logfile
                                in (Inr ''Payment successful!'', logfile))))))"

subsection \<open>Notions used to state the properties\<close>

text \<open>The payer's identifier in the details, and the payer's balance in the ledger.\<close>

definition payer_id :: "payment_method \<Rightarrow> details \<Rightarrow> string option" where
  "payer_id pm payment_details = payment_details (id_field pm)"

definition balance_of :: "payment_method \<Rightarrow> details \<Rightarrow> rat option" where
  "balance_of pm payment_details = dict_get (ledger_of pm) (payer_id pm payment_details)"

text \<open>The data model's invariant of a ledger: no balance is negative.\<close>

definition ledger_nonneg :: "payment_method \<Rightarrow> bool" where
  "ledger_nonneg pm = (\<forall>k balance. ledger_of pm k = Some balance \<longrightarrow> 0 \<le> balance)"

definition order_ledger_nonneg :: "order \<Rightarrow> bool" where
  "order_ledger_nonneg self =
     (case payment_method self of None \<Rightarrow> True | Some pm \<Rightarrow> ledger_nonneg pm)"

text \<open>
  A client of an order: any sequence of calls of its public methods. An exception ends
  the sequence.
\<close>

datatype order_call =
    AddItem string int rat
  | SetPaymentMethod payment_method
  | SetDiscountStrategy discount
  | Pay details

fun order_step :: "order \<Rightarrow> order_call \<Rightarrow> py_error + order" where
  "order_step self (AddItem name quantity price) = Inr (add_item self name quantity price)"
| "order_step self (SetPaymentMethod pm) = Inr (set_payment_method self pm)"
| "order_step self (SetDiscountStrategy ds) = Inr (set_discount_strategy self ds)"
| "order_step self (Pay payment_details) =
     (case pay self payment_details of Inl e \<Rightarrow> Inl e | Inr (success, self') \<Rightarrow> Inr self')"

fun run_calls :: "order \<Rightarrow> order_call list \<Rightarrow> py_error + order" where
  "run_calls self [] = Inr self"
| "run_calls self (c # cs) =
     (case order_step self c of Inl e \<Rightarrow> Inl e | Inr self' \<Rightarrow> run_calls self' cs)"

definition new_methods_nonneg :: "order_call list \<Rightarrow> bool" where
  "new_methods_nonneg calls =
     list_all (\<lambda>c. case c of SetPaymentMethod pm \<Rightarrow> ledger_nonneg pm | _ \<Rightarrow> True) calls"

text \<open>The inputs of the specification's first scenario, and its card details.\<close>

definition scenario_1 :: checkout_input where
  "scenario_1 =
     \<lparr>in_items = [(''item'', 2, 25)], in_method_choice = ''1'',
      in_card_number = ''1234567891234567'', in_expiry_date = ''11/25'', in_cvv = ''123'',
      in_email = [], in_wallet_address = [], in_name = [], in_address = []\<rparr>"

definition card_details :: details where
  "card_details =
     [''card_number'' \<mapsto> ''1234567891234567'', ''expiry_date'' \<mapsto> ''11/25'', ''cvv'' \<mapsto> ''123'']"

definition scenario_1_order :: order where
  "scenario_1_order = wire_payment_method (collect_items scenario_1) CreditCardPayment_init"

text \<open>An order whose total, 10, is below the credit card's fixed discount of 30.\<close>

definition small_order :: order where
  "small_order = wire_payment_method (add_item Order_init ''item'' 1 10) CreditCardPayment_init"

section \<open>Properties\<close>

subsection \<open>What the methods of a payment method and \<^verbatim>\<open>Order.pay\<close> compute\<close>

lemma validate_self: "snd (validate pm d) = pm"
  by (cases pm) (simp_all add: Let_def)

lemma check_balance_self: "snd (check_balance pm d a) = pm"
  by (cases pm) (simp_all add: Let_def split: option.splits)

lemma validate_known:
  "fst (validate pm d) \<Longrightarrow> \<exists>k balance. payer_id pm d = Some k \<and> ledger_of pm k = Some balance"
  by (cases pm) (auto simp: Let_def payer_id_def dict_get_def missing_or_bad_def split: if_splits option.splits)

lemma process_payment_known:
  "payer_id pm d = Some k \<Longrightarrow> ledger_of pm k = Some balance \<Longrightarrow>
   process_payment pm amount d =
     (if amount \<le> balance
      then Inr (True, with_ledger pm ((ledger_of pm)(k \<mapsto> balance - amount)))
      else Inr (False, pm))"
  by (cases pm) (simp_all add: Let_def payer_id_def dict_get_def dict_decrement_def)

lemma pay_invalid:
  "payment_method self = Some pm \<Longrightarrow> \<not> fst (validate pm d) \<Longrightarrow> pay self d = Inr (False, self)"
  using validate_self [of pm d]
  by (cases "validate pm d") (simp add: pay_def)

lemma pay_valid:
  "payment_method self = Some pm \<Longrightarrow> fst (validate pm d) \<Longrightarrow>
   payer_id pm d = Some k \<Longrightarrow> ledger_of pm k = Some balance \<Longrightarrow>
   pay self d =
     (if final_amount self \<le> balance
      then Inr (True, self\<lparr>payment_method :=
                  Some (with_ledger pm ((ledger_of pm)(k \<mapsto> balance - final_amount self))),
                  status := ''paid''\<rparr>)
      else Inr (False, self))"
  using validate_self [of pm d]
  by (cases "validate pm d") (simp add: pay_def process_payment_known)

lemma final_amount_nonneg: "0 \<le> final_amount self"
  by (simp add: final_amount_def Let_def)

lemma ledger_of_with_ledger: "ledger_of (with_ledger pm m) = m"
  by (cases pm) simp_all

lemma id_field_with_ledger: "id_field (with_ledger pm m) = id_field pm"
  by (cases pm) simp_all

lemma check_balance_known:
  "payer_id pm d = Some k \<Longrightarrow> ledger_of pm k = Some balance \<Longrightarrow>
   fst (check_balance pm d amount) = (amount \<le> balance)"
  by (cases pm) (simp_all add: Let_def payer_id_def dict_get_def)

lemma process_payment_unknown:
  "balance_of pm d = None \<Longrightarrow>
   process_payment pm amount d =
     (if fst (check_balance pm d amount) then Inl KeyError else Inr (False, pm))"
  by (cases pm)
     (auto simp: Let_def balance_of_def payer_id_def dict_get_def dict_decrement_def
           split: option.splits)

lemma process_payment_nonneg:
  "ledger_nonneg pm \<Longrightarrow> process_payment pm amount d = Inr (ok, pm') \<Longrightarrow> ledger_nonneg pm'"
proof (cases "balance_of pm d")
  case None
  assume "process_payment pm amount d = Inr (ok, pm')" "ledger_nonneg pm"
  with process_payment_unknown [OF None, of amount] show ?thesis
    by (auto split: if_splits)
next
  case (Some balance)
  assume a: "process_payment pm amount d = Inr (ok, pm')" "ledger_nonneg pm"
  from Some obtain k where k: "payer_id pm d = Some k" "ledger_of pm k = Some balance"
    by (auto simp: balance_of_def dict_get_def split: option.splits)
  from process_payment_known [OF k, of amount] a show ?thesis
    by (auto simp: ledger_nonneg_def ledger_of_with_ledger split: if_splits)
qed

lemma pay_total:
  "\<exists>ok self'. pay self d = Inr (ok, self')"
proof (cases "payment_method self")
  case None
  then show ?thesis by (auto simp: pay_def)
next
  case (Some pm)
  show ?thesis
  proof (cases "fst (validate pm d)")
    case False
    with pay_invalid [OF Some] show ?thesis by blast
  next
    case True
    from validate_known [OF True] obtain k balance
      where "payer_id pm d = Some k" "ledger_of pm k = Some balance" by blast
    from pay_valid [OF Some True this] show ?thesis by (auto split: if_splits)
  qed
qed

lemma pay_ledger:
  assumes "payment_method self = Some pm" and "pay self d = Inr (ok, self')"
  shows "\<exists>pm'. payment_method self' = Some pm' \<and>
           (\<forall>k b. ledger_of pm k = Some b \<longrightarrow> (\<exists>b'. ledger_of pm' k = Some b' \<and> b' \<le> b \<and> (0 \<le> b \<longrightarrow> 0 \<le> b'))) \<and>
           dom (ledger_of pm') = dom (ledger_of pm)"
proof (cases "fst (validate pm d)")
  case False
  with pay_invalid [OF assms(1)] assms show ?thesis by auto
next
  case True
  from validate_known [OF True] obtain k balance
    where k: "payer_id pm d = Some k" "ledger_of pm k = Some balance" by blast
  from pay_valid [OF assms(1) True k] assms k final_amount_nonneg [of self] show ?thesis
    by (auto simp: ledger_of_with_ledger split: if_splits)
qed

lemma pay_nonneg:
  assumes "order_ledger_nonneg self" and "pay self d = Inr (ok, self')"
  shows "order_ledger_nonneg self'"
proof (cases "payment_method self")
  case None
  with assms show ?thesis by (simp add: pay_def)
next
  case (Some pm)
  from pay_ledger [OF Some assms(2)] obtain pm' where
    pm': "payment_method self' = Some pm'"
    and le: "\<And>k b. ledger_of pm k = Some b \<Longrightarrow> \<exists>b'. ledger_of pm' k = Some b' \<and> b' \<le> b \<and> (0 \<le> b \<longrightarrow> 0 \<le> b')"
    and d: "dom (ledger_of pm') = dom (ledger_of pm)" by blast
  have "0 \<le> b'" if "ledger_of pm' k = Some b'" for k b'
  proof -
    from that d obtain b where b: "ledger_of pm k = Some b" by blast
    with assms(1) Some have "0 \<le> b" by (simp add: order_ledger_nonneg_def ledger_nonneg_def)
    with le [OF b] that show ?thesis by auto
  qed
  with pm' show ?thesis by (simp add: order_ledger_nonneg_def ledger_nonneg_def)
qed

lemma total_price_paid:
  "total_price (self\<lparr>payment_method := pm, status := st\<rparr>) = total_price self"
  by (simp add: total_price_def)

lemma apply_discounts_paid:
  "apply_discounts (self\<lparr>payment_method := pm, status := st\<rparr>) = apply_discounts self"
  by (simp add: apply_discounts_def total_price_paid split: option.splits)

lemma final_amount_paid:
  "final_amount (self\<lparr>payment_method := pm, status := st\<rparr>) = final_amount self"
  by (simp add: final_amount_def total_price_paid apply_discounts_paid)

subsection \<open>The scenarios, evaluated\<close>

lemma validate_card_details:
  "validate CreditCardPayment_init card_details = (True, CreditCardPayment_init)"
  by (simp add: CreditCardPayment_init_def card_details_def missing_or_bad_def match_digits_def
        match_expiry_def eol_body_def is_digit_def dict_get_def)

lemma card_details_payer:
  "payer_id (CreditCardPayment m) card_details = Some ''1234567891234567''"
  by (simp add: payer_id_def card_details_def)

lemma card_ledger: "ledger_of CreditCardPayment_init ''1234567891234567'' = Some 500"
  by (simp add: CreditCardPayment_init_def)

lemma card_ledger_upd:
  "with_ledger CreditCardPayment_init ((ledger_of CreditCardPayment_init)(''1234567891234567'' \<mapsto> b))
     = CreditCardPayment [''1234567891234567'' \<mapsto> b]"
  by (simp add: CreditCardPayment_init_def)

lemma card_payer_init: "payer_id CreditCardPayment_init card_details = Some ''1234567891234567''"
  by (simp add: CreditCardPayment_init_def card_details_payer)

lemma init_nonneg:
  "ledger_nonneg CreditCardPayment_init" "ledger_nonneg PayPalPayment_init"
  "ledger_nonneg CryptocurrencyPayment_init"
  by (simp_all add: ledger_nonneg_def CreditCardPayment_init_def PayPalPayment_init_def
        CryptocurrencyPayment_init_def)

lemma scenario_1_order_eq:
  "scenario_1_order =
     \<lparr>items = [''item''], quantities = [2], prices = [25], status = ''open'',
      payment_method = Some CreditCardPayment_init,
      discount_strategy = Some (FixedAmountDiscount 30)\<rparr>"
  by (simp add: scenario_1_order_def wire_payment_method_def collect_items_def scenario_1_def
        add_item_def Order_init_def set_payment_method_def set_discount_strategy_def
        CreditCardPayment_init_def)

lemma small_order_eq:
  "small_order =
     \<lparr>items = [''item''], quantities = [1], prices = [10], status = ''open'',
      payment_method = Some CreditCardPayment_init,
      discount_strategy = Some (FixedAmountDiscount 30)\<rparr>"
  by (simp add: small_order_def wire_payment_method_def
        add_item_def Order_init_def set_payment_method_def set_discount_strategy_def
        CreditCardPayment_init_def)

lemma scenario_1_amounts:
  "total_price scenario_1_order = 50" "apply_discounts scenario_1_order = 30"
  "final_amount scenario_1_order = 20"
  by (simp_all add: scenario_1_order_eq total_price_def apply_discounts_def final_amount_def)

lemma small_order_amounts:
  "total_price small_order = 10" "apply_discounts small_order = 30"
  by (simp_all add: small_order_eq total_price_def apply_discounts_def)

lemma pay_scenario_1:
  "pay scenario_1_order card_details =
     Inr (True, scenario_1_order\<lparr>payment_method :=
                  Some (CreditCardPayment [''1234567891234567'' \<mapsto> 480]),
                  status := ''paid''\<rparr>)"
proof -
  have pm: "payment_method scenario_1_order = Some CreditCardPayment_init"
    by (simp add: scenario_1_order_eq)
  have v: "fst (validate CreditCardPayment_init card_details)"
    by (simp add: validate_card_details)
  from pay_valid [OF pm v card_payer_init card_ledger] show ?thesis
    by (simp add: scenario_1_amounts card_ledger_upd)
qed

subsection \<open>Paying without a payment method\<close>

text \<open>
  Claim C3. An order whose payment method is unset: \<^verbatim>\<open>pay\<close> returns \<^verbatim>\<open>True\<close> for any
  details, and the order after the call is the order before it. So nothing was validated,
  no ledger changed (the order holds none), and the status is what it was: an order that
  was \<^verbatim>\<open>"open"\<close> stays \<^verbatim>\<open>"open"\<close> and is not set to \<^verbatim>\<open>"paid"\<close>.
\<close>

theorem pay_without_method:
  "payment_method self = None \<Longrightarrow> pay self d = Inr (True, self)"
  by (simp add: pay_def)

theorem pay_without_method_witness:
  "pay (add_item Order_init ''item'' 2 25) card_details
     = Inr (True, add_item Order_init ''item'' 2 25) \<and>
   status (add_item Order_init ''item'' 2 25) = ''open'' \<and>
   payment_method (add_item Order_init ''item'' 2 25) = None"
  using pay_without_method [of "add_item Order_init ''item'' 2 25" card_details]
  by (simp add: add_item_def Order_init_def)

subsection \<open>The amount handed to \<^verbatim>\<open>process_payment\<close>\<close>

text \<open>
  Claim C4. The amount that \<^verbatim>\<open>pay\<close> computes is the larger of 0 and the total minus the
  discount, so it is never negative; with a fixed discount above the total it is 0; and
  this is the amount that \<^verbatim>\<open>pay\<close> passes to \<^verbatim>\<open>process_payment\<close> once the details
  validate, whatever the discount strategy of the order.
\<close>

theorem final_amount_clamped:
  "final_amount self = max 0 (total_price self - apply_discounts self) \<and>
   0 \<le> final_amount self \<and>
   (\<forall>a. discount_strategy self = Some (FixedAmountDiscount a) \<and> total_price self < a
        \<longrightarrow> final_amount self = 0) \<and>
   (\<forall>pm d. payment_method self = Some pm \<and> fst (validate pm d) \<longrightarrow>
      pay self d =
        (case process_payment pm (max 0 (total_price self - apply_discounts self)) d of
           Inl e \<Rightarrow> Inl e
         | Inr (charged, pm') \<Rightarrow>
             Inr (charged, self\<lparr>payment_method := Some pm',
                                status := (if charged then ''paid'' else status self)\<rparr>)))"
proof -
  have eq: "final_amount self = max 0 (total_price self - apply_discounts self)"
    by (simp add: final_amount_def Let_def max_def)
  have fixed: "\<forall>a. discount_strategy self = Some (FixedAmountDiscount a) \<and> total_price self < a
        \<longrightarrow> final_amount self = 0"
    by (simp add: final_amount_def Let_def apply_discounts_def)
  have passes: "pay self d =
        (case process_payment pm (max 0 (total_price self - apply_discounts self)) d of
           Inl e \<Rightarrow> Inl e
         | Inr (charged, pm') \<Rightarrow>
             Inr (charged, self\<lparr>payment_method := Some pm',
                                status := (if charged then ''paid'' else status self)\<rparr>))"
    if "payment_method self = Some pm" "fst (validate pm d)" for pm d
    using that validate_self [of pm d] eq
    by (cases "validate pm d") (auto simp: pay_def split: sum.splits)
  from eq fixed passes final_amount_nonneg show ?thesis by blast
qed

theorem final_amount_clamped_witness:
  "final_amount small_order = 0 \<and>
   pay small_order card_details =
     Inr (True, small_order\<lparr>payment_method :=
                  Some (CreditCardPayment [''1234567891234567'' \<mapsto> 500]),
                  status := ''paid''\<rparr>)"
proof -
  have pm: "payment_method small_order = Some CreditCardPayment_init"
    by (simp add: small_order_eq)
  have v: "fst (validate CreditCardPayment_init card_details)"
    by (simp add: validate_card_details)
  have p: "process_payment CreditCardPayment_init 0 card_details =
             Inr (True, CreditCardPayment [''1234567891234567'' \<mapsto> 500])"
    by (simp add: CreditCardPayment_init_def card_details_def dict_get_def dict_decrement_def)
  from final_amount_clamped [of small_order] pm v p show ?thesis
    by (simp add: small_order_amounts)
qed

subsection \<open>No balance falls below zero through \<^verbatim>\<open>pay\<close>\<close>

text \<open>
  Claim C5. Start from an order whose ledger (if it has a payment method) holds no negative
  balance, and let a client call \<^verbatim>\<open>add_item\<close>, \<^verbatim>\<open>set_payment_method\<close> (with
  methods whose ledgers hold no negative balance), \<^verbatim>\<open>set_discount_strategy\<close> and
  \<^verbatim>\<open>pay\<close> in any order and number. Then no call raises, and at the end the ledger still
  holds no negative balance. The freshly constructed payment methods satisfy the
  assumption (\<open>init_nonneg\<close>).
\<close>

theorem pay_keeps_ledger_nonneg:
  "order_ledger_nonneg self \<Longrightarrow> new_methods_nonneg calls \<Longrightarrow>
   \<exists>self'. run_calls self calls = Inr self' \<and> order_ledger_nonneg self'"
proof (induction calls arbitrary: self)
  case Nil
  then show ?case by simp
next
  case (Cons c cs)
  from Cons.prems(2) have cs: "new_methods_nonneg cs"
    by (simp add: new_methods_nonneg_def)
  have "\<exists>self1. order_step self c = Inr self1 \<and> order_ledger_nonneg self1"
  proof (cases c)
    case (AddItem name quantity price)
    with Cons.prems(1) show ?thesis by (simp add: add_item_def order_ledger_nonneg_def)
  next
    case (SetPaymentMethod pm)
    with Cons.prems(2) show ?thesis
      by (simp add: set_payment_method_def order_ledger_nonneg_def new_methods_nonneg_def)
  next
    case (SetDiscountStrategy ds)
    with Cons.prems(1) show ?thesis
      by (simp add: set_discount_strategy_def order_ledger_nonneg_def)
  next
    case (Pay d)
    from pay_total [of self d] obtain ok self1 where p: "pay self d = Inr (ok, self1)" by blast
    with pay_nonneg [OF Cons.prems(1) p] Pay show ?thesis by simp
  qed
  then obtain self1 where s1: "order_step self c = Inr self1" "order_ledger_nonneg self1"
    by blast
  from Cons.IH [OF s1(2) cs] s1(1) show ?case by simp
qed

theorem pay_keeps_ledger_nonneg_witness:
  "order_ledger_nonneg scenario_1_order \<and>
   new_methods_nonneg
     [Pay card_details, AddItem ''more'' 1 100, Pay card_details,
      SetPaymentMethod PayPalPayment_init, Pay [''email'' \<mapsto> ''Rand@gmail.com'']] \<and>
   (\<exists>self'. run_calls scenario_1_order
        [Pay card_details, AddItem ''more'' 1 100, Pay card_details,
         SetPaymentMethod PayPalPayment_init, Pay [''email'' \<mapsto> ''Rand@gmail.com'']] = Inr self' \<and>
      order_ledger_nonneg self')"
proof -
  have a: "order_ledger_nonneg scenario_1_order"
    by (simp add: order_ledger_nonneg_def scenario_1_order_eq init_nonneg)
  have b: "new_methods_nonneg
     [Pay card_details, AddItem ''more'' 1 100, Pay card_details,
      SetPaymentMethod PayPalPayment_init, Pay [''email'' \<mapsto> ''Rand@gmail.com'']]"
    by (simp add: new_methods_nonneg_def init_nonneg)
  from a b pay_keeps_ledger_nonneg [OF a b] show ?thesis by blast
qed

subsection \<open>The contract of \<^verbatim>\<open>process_payment\<close>\<close>

text \<open>
  Claim C6. For each of the three payment methods and any direct call of
  \<^verbatim>\<open>process_payment\<close>: when \<^verbatim>\<open>check_balance\<close> says the balance is insufficient, the
  result is \<^verbatim>\<open>False\<close> and the object is unchanged; a result \<^verbatim>\<open>True\<close> means that the
  balance check passed and that exactly the payer's entry was decremented by exactly the
  amount; a result \<^verbatim>\<open>False\<close> leaves the object unchanged; and for a payer in the ledger
  the outcome is decided by comparing the amount with the balance inside
  \<^verbatim>\<open>process_payment\<close> itself, with no call of \<^verbatim>\<open>validate\<close>.
\<close>

theorem process_payment_contract:
  "(\<not> fst (check_balance pm d amount) \<longrightarrow> process_payment pm amount d = Inr (False, pm)) \<and>
   (\<forall>pm'. process_payment pm amount d = Inr (True, pm') \<longrightarrow>
      fst (check_balance pm d amount) \<and>
      (\<exists>k balance. payer_id pm d = Some k \<and> ledger_of pm k = Some balance \<and> amount \<le> balance \<and>
         pm' = with_ledger pm ((ledger_of pm)(k \<mapsto> balance - amount)))) \<and>
   (\<forall>pm'. process_payment pm amount d = Inr (False, pm') \<longrightarrow>
      pm' = pm \<and> \<not> fst (check_balance pm d amount)) \<and>
   (\<forall>k balance. payer_id pm d = Some k \<and> ledger_of pm k = Some balance \<longrightarrow>
      process_payment pm amount d =
        (if amount \<le> balance
         then Inr (True, with_ledger pm ((ledger_of pm)(k \<mapsto> balance - amount)))
         else Inr (False, pm)))"
proof (cases "balance_of pm d")
  case None
  then have "\<And>k. payer_id pm d = Some k \<Longrightarrow> ledger_of pm k = None"
    by (simp add: balance_of_def dict_get_def)
  with process_payment_unknown [OF None, of amount] show ?thesis
    by (auto split: if_splits)
next
  case (Some balance)
  then obtain k where k: "payer_id pm d = Some k" "ledger_of pm k = Some balance"
    by (auto simp: balance_of_def dict_get_def split: option.splits)
  from process_payment_known [OF k, of amount] check_balance_known [OF k, of amount] k
  show ?thesis by (auto split: if_splits)
qed

theorem process_payment_contract_witness:
  "process_payment CreditCardPayment_init 20 card_details =
     Inr (True, CreditCardPayment [''1234567891234567'' \<mapsto> 480]) \<and>
   \<not> fst (check_balance CreditCardPayment_init card_details 600) \<and>
   process_payment CreditCardPayment_init 600 card_details = Inr (False, CreditCardPayment_init)"
proof -
  have nb: "\<not> fst (check_balance CreditCardPayment_init card_details 600)"
    by (simp add: CreditCardPayment_init_def card_details_def dict_get_def)
  have k: "payer_id CreditCardPayment_init card_details = Some ''1234567891234567'' \<and>
           ledger_of CreditCardPayment_init ''1234567891234567'' = Some 500"
    by (simp add: card_payer_init card_ledger)
  note known = process_payment_contract [of CreditCardPayment_init card_details 20,
      THEN conjunct2, THEN conjunct2, THEN conjunct2, rule_format, OF k]
  note refused = process_payment_contract [of CreditCardPayment_init card_details 600,
      THEN conjunct1, rule_format, OF nb]
  have "process_payment CreditCardPayment_init 20 card_details =
     Inr (True, CreditCardPayment [''1234567891234567'' \<mapsto> 480])"
    by (simp add: known card_ledger_upd)
  with nb refused show ?thesis by simp
qed

subsection \<open>Paying twice\<close>

text \<open>
  Claim C7. \<^verbatim>\<open>pay\<close> has no guard on the status. If a first \<^verbatim>\<open>pay\<close> on an order with a
  payment method succeeds and the payer's remaining balance still covers the amount, then
  the order is \<^verbatim>\<open>"paid"\<close> and a second \<^verbatim>\<open>pay\<close> with the same details succeeds too and
  takes the amount from the balance again.
\<close>

theorem pay_twice_charges_twice:
  assumes "payment_method self = Some pm"
    and "pay self d = Inr (True, self1)"
    and "payment_method self1 = Some pm1"
    and "balance_of pm1 d = Some b1"
    and "final_amount self \<le> b1"
  shows "status self1 = ''paid'' \<and>
         (\<exists>b0. balance_of pm d = Some b0 \<and> b1 = b0 - final_amount self) \<and>
         (\<exists>self2 pm2. pay self1 d = Inr (True, self2) \<and> payment_method self2 = Some pm2 \<and>
            status self2 = ''paid'' \<and>
            balance_of pm2 d = Some (b1 - final_amount self))"
proof -
  have v: "fst (validate pm d)"
    using pay_invalid [OF assms(1), of d] assms(2) by auto
  from validate_known [OF v] obtain k b0
    where k: "payer_id pm d = Some k" "ledger_of pm k = Some b0" by blast
  let ?pm1 = "with_ledger pm ((ledger_of pm)(k \<mapsto> b0 - final_amount self))"
  from pay_valid [OF assms(1) v k] assms(2)
  have s1: "self1 = self\<lparr>payment_method := Some ?pm1, status := ''paid''\<rparr>"
    by (auto split: if_splits)
  with assms(3) have pm1: "pm1 = ?pm1" by simp
  have k1: "payer_id pm1 d = Some k" "ledger_of pm1 k = Some (b0 - final_amount self)"
    using k by (simp_all add: pm1 payer_id_def id_field_with_ledger ledger_of_with_ledger)
  with assms(4) have b1: "b1 = b0 - final_amount self"
    by (simp add: balance_of_def dict_get_def)
  have fa: "final_amount self1 = final_amount self"
    by (simp add: s1 final_amount_paid)
  have v1: "fst (validate pm1 d)"
    using v k by (cases pm) (auto simp: pm1 Let_def dict_get_def payer_id_def split: if_splits)
  from pay_valid [OF assms(3) v1 k1] assms(5) b1 fa
  have "pay self1 d = Inr (True, self1\<lparr>payment_method :=
     Some (with_ledger pm1 ((ledger_of pm1)(k \<mapsto> b1 - final_amount self))), status := ''paid''\<rparr>)"
    by simp
  moreover have "balance_of (with_ledger pm1 ((ledger_of pm1)(k \<mapsto> b1 - final_amount self))) d
       = Some (b1 - final_amount self)"
    using k1 by (simp add: balance_of_def payer_id_def id_field_with_ledger ledger_of_with_ledger dict_get_def)
  moreover have "balance_of pm d = Some b0"
    using k by (simp add: balance_of_def dict_get_def)
  ultimately show ?thesis using s1 b1 by simp
qed

theorem pay_twice_charges_twice_witness:
  "\<exists>self1 self2 pm2.
     pay scenario_1_order card_details = Inr (True, self1) \<and> status self1 = ''paid'' \<and>
     pay self1 card_details = Inr (True, self2) \<and>
     payment_method self2 = Some pm2 \<and>
     balance_of CreditCardPayment_init card_details = Some 500 \<and>
     balance_of pm2 card_details = Some 460"
proof -
  let ?pm1 = "CreditCardPayment [''1234567891234567'' \<mapsto> 480]"
  let ?self1 = "scenario_1_order\<lparr>payment_method := Some ?pm1, status := ''paid''\<rparr>"
  have pm: "payment_method scenario_1_order = Some CreditCardPayment_init"
    by (simp add: scenario_1_order_eq)
  have pm1: "payment_method ?self1 = Some ?pm1" by simp
  have b1: "balance_of ?pm1 card_details = Some 480"
    by (simp add: balance_of_def card_details_payer dict_get_def)
  have le: "final_amount scenario_1_order \<le> 480"
    by (simp add: scenario_1_amounts)
  have b0: "balance_of CreditCardPayment_init card_details = Some 500"
    by (simp add: balance_of_def card_payer_init card_ledger dict_get_def)
  from pay_twice_charges_twice [OF pm pay_scenario_1 pm1 b1 le]
  obtain self2 pm2 where
    "status ?self1 = ''paid''" "pay ?self1 card_details = Inr (True, self2)"
    "payment_method self2 = Some pm2"
    "balance_of pm2 card_details = Some (480 - final_amount scenario_1_order)"
    by blast
  then have "pay scenario_1_order card_details = Inr (True, ?self1) \<and> status ?self1 = ''paid'' \<and>
     pay ?self1 card_details = Inr (True, self2) \<and>
     payment_method self2 = Some pm2 \<and>
     balance_of CreditCardPayment_init card_details = Some 500 \<and>
     balance_of pm2 card_details = Some 460"
    using pay_scenario_1 b0 by (simp add: scenario_1_amounts)
  then show ?thesis by blast
qed

subsection \<open>\<^verbatim>\<open>validate\<close> only reads\<close>

text \<open>
  Claim C8. For each payment method and all details, the object after \<^verbatim>\<open>validate\<close> is the
  object before it, ledger included; and the answer depends on the ledger only through
  its set of keys: two objects of the same class whose ledgers have the same keys, with
  any balances, validate the same details alike.
\<close>

theorem validate_reads_only:
  "snd (validate pm d) = pm \<and>
   (\<forall>pm'. class_name pm' = class_name pm \<and> dom (ledger_of pm') = dom (ledger_of pm) \<longrightarrow>
      fst (validate pm' d) = fst (validate pm d))"
proof -
  have dg: "(dict_get m k = None) = (dict_get m' k = None)" if "dom m = dom m'" for m m' :: ledger and k
    using that by (cases k) (auto simp: dict_get_def)
  have "fst (validate pm' d) = fst (validate pm d)"
    if "class_name pm' = class_name pm" "dom (ledger_of pm') = dom (ledger_of pm)" for pm'
    using that dg [of "ledger_of pm'" "ledger_of pm"]
    by (cases pm; cases pm') (simp_all add: Let_def)
  with validate_self [of pm d] show ?thesis by blast
qed

theorem validate_reads_only_witness:
  "snd (validate CreditCardPayment_init card_details) = CreditCardPayment_init \<and>
   fst (validate (CreditCardPayment [''1234567891234567'' \<mapsto> 0]) card_details) = True"
proof -
  let ?pm' = "CreditCardPayment [''1234567891234567'' \<mapsto> 0]"
  note t = validate_reads_only [of CreditCardPayment_init card_details]
  have same: "class_name ?pm' = class_name CreditCardPayment_init \<and>
              dom (ledger_of ?pm') = dom (ledger_of CreditCardPayment_init)"
    by (simp add: CreditCardPayment_init_def)
  from t same have "fst (validate ?pm' card_details) =
                    fst (validate CreditCardPayment_init card_details)"
    by blast
  with t show ?thesis by (simp add: validate_card_details)
qed

subsection \<open>Direct calls for a payer that is not in the ledger\<close>

text \<open>
  Claim C9. A direct call of \<^verbatim>\<open>process_payment\<close> with an amount of at most 0 and an
  identifier (or none) that is not in the ledger: for PayPal and for cryptocurrency the
  balance check passes, because the default balance 0 covers the amount, and the
  decrement raises \<^verbatim>\<open>KeyError\<close>, so no boolean is returned. The credit card variant
  returns \<^verbatim>\<open>False\<close> for an unknown card, for any amount.
\<close>

theorem process_payment_unknown_payer:
  "(dict_get m (d ''email'') = None \<and> amount \<le> 0 \<longrightarrow>
      fst (check_balance (PayPalPayment m) d amount) \<and>
      process_payment (PayPalPayment m) amount d = Inl KeyError) \<and>
   (dict_get m (d ''wallet_address'') = None \<and> amount \<le> 0 \<longrightarrow>
      fst (check_balance (CryptocurrencyPayment m) d amount) \<and>
      process_payment (CryptocurrencyPayment m) amount d = Inl KeyError) \<and>
   (dict_get m (d ''card_number'') = None \<longrightarrow>
      \<not> fst (check_balance (CreditCardPayment m) d amount) \<and>
      process_payment (CreditCardPayment m) amount d = Inr (False, CreditCardPayment m))"
  by (auto simp: Let_def dict_get_def dict_decrement_def split: option.splits)

theorem process_payment_unknown_payer_witness:
  "process_payment PayPalPayment_init 0 [''email'' \<mapsto> ''nobody@example.com''] = Inl KeyError \<and>
   process_payment CryptocurrencyPayment_init (- 5) Map.empty = Inl KeyError \<and>
   process_payment CreditCardPayment_init (- 5) Map.empty = Inr (False, CreditCardPayment_init)"
proof -
  let ?emails = "[''Rand@gmail.com'' \<mapsto> 500, ''Sama@gmail.com'' \<mapsto> (1000::rat)]"
  let ?d = "[''email'' \<mapsto> ''nobody@example.com'']"
  have a: "dict_get ?emails (?d ''email'') = None \<and> (0::rat) \<le> 0"
    by (simp add: dict_get_def)
  have b: "dict_get [''1BoatSLRHtKNngkdXEeobR76b53LETtpyT'' \<mapsto> 1000]
             (Map.empty ''wallet_address'') = None \<and> (- 5::rat) \<le> 0"
    by (simp add: dict_get_def)
  have c: "dict_get [''1234567891234567'' \<mapsto> 500] (Map.empty ''card_number'') = None"
    by (simp add: dict_get_def)
  note paypal = process_payment_unknown_payer [of ?emails ?d 0,
      THEN conjunct1, rule_format, OF a, THEN conjunct2]
  note crypto = process_payment_unknown_payer
      [of "[''1BoatSLRHtKNngkdXEeobR76b53LETtpyT'' \<mapsto> 1000]" Map.empty "- 5",
       THEN conjunct2, THEN conjunct1, rule_format, OF b, THEN conjunct2]
  note credit = process_payment_unknown_payer
      [of "[''1234567891234567'' \<mapsto> 500]" Map.empty "- 5",
       THEN conjunct2, THEN conjunct2, rule_format, OF c, THEN conjunct2]
  from paypal crypto credit show ?thesis
    unfolding PayPalPayment_init_def CryptocurrencyPayment_init_def CreditCardPayment_init_def
    by (intro conjI)
qed

subsection \<open>Direct calls with a negative amount\<close>

text \<open>
  Claim C10. On a ledger without negative balances, a direct call of
  \<^verbatim>\<open>process_payment\<close> with a negative amount for a payer in the ledger returns
  \<^verbatim>\<open>True\<close> and raises the payer's balance by the absolute value of the amount.
  \<^verbatim>\<open>pay\<close> cannot do that: the amount it passes is never negative, and no balance is
  higher after a \<^verbatim>\<open>pay\<close> than before. (No call of \<^verbatim>\<open>process_payment\<close> makes a balance
  negative, \<open>process_payment_nonneg\<close>, and the constructors seed positive balances.)
\<close>

theorem negative_amount_credits:
  "(ledger_nonneg pm \<and> payer_id pm d = Some k \<and> ledger_of pm k = Some balance \<and> amount < 0 \<longrightarrow>
      process_payment pm amount d =
        Inr (True, with_ledger pm ((ledger_of pm)(k \<mapsto> balance + \<bar>amount\<bar>))) \<and>
      balance < balance + \<bar>amount\<bar>) \<and>
   \<not> final_amount self < 0 \<and>
   (\<forall>pm0 d' ok self'. payment_method self = Some pm0 \<and> pay self d' = Inr (ok, self') \<longrightarrow>
      (\<exists>pm1. payment_method self' = Some pm1 \<and>
         (\<forall>k' b. ledger_of pm0 k' = Some b \<longrightarrow> (\<exists>b'. ledger_of pm1 k' = Some b' \<and> b' \<le> b))))"
proof -
  have direct: "process_payment pm amount d =
        Inr (True, with_ledger pm ((ledger_of pm)(k \<mapsto> balance + \<bar>amount\<bar>))) \<and>
      balance < balance + \<bar>amount\<bar>"
    if "ledger_nonneg pm" and k: "payer_id pm d = Some k" "ledger_of pm k = Some balance"
      and neg: "amount < 0"
  proof -
    from that have "0 \<le> balance" by (auto simp: ledger_nonneg_def)
    with neg process_payment_known [OF k, of amount] show ?thesis by simp
  qed
  have through_pay: "\<exists>pm1. payment_method self' = Some pm1 \<and>
         (\<forall>k' b. ledger_of pm0 k' = Some b \<longrightarrow> (\<exists>b'. ledger_of pm1 k' = Some b' \<and> b' \<le> b))"
    if "payment_method self = Some pm0" "pay self d' = Inr (ok, self')" for pm0 d' ok self'
    using pay_ledger [OF that] by blast
  from final_amount_nonneg [of self] have "\<not> final_amount self < 0" by simp
  with direct through_pay show ?thesis by blast
qed

theorem negative_amount_credits_witness:
  "process_payment CreditCardPayment_init (- 20) card_details =
     Inr (True, CreditCardPayment [''1234567891234567'' \<mapsto> 520]) \<and>
   \<not> final_amount small_order < 0 \<and>
   (\<exists>self' pm1 b'. pay scenario_1_order card_details = Inr (True, self') \<and>
      payment_method self' = Some pm1 \<and>
      ledger_of pm1 ''1234567891234567'' = Some b' \<and> b' \<le> 500)"
proof -
  note t = negative_amount_credits
    [of CreditCardPayment_init card_details "''1234567891234567''" 500 "- 20" small_order]
  have k: "ledger_nonneg CreditCardPayment_init \<and>
           payer_id CreditCardPayment_init card_details = Some ''1234567891234567'' \<and>
           ledger_of CreditCardPayment_init ''1234567891234567'' = Some 500 \<and> (- 20::rat) < 0"
    by (simp add: init_nonneg card_payer_init card_ledger)
  note direct = t [THEN conjunct1, rule_format, OF k, THEN conjunct1]
  note clamped = t [THEN conjunct2, THEN conjunct1]
  have "process_payment CreditCardPayment_init (- 20) card_details =
     Inr (True, CreditCardPayment [''1234567891234567'' \<mapsto> 520])"
    by (simp add: direct card_ledger_upd)
  moreover have "\<exists>self' pm1 b'. pay scenario_1_order card_details = Inr (True, self') \<and>
      payment_method self' = Some pm1 \<and>
      ledger_of pm1 ''1234567891234567'' = Some b' \<and> b' \<le> 500"
    by (simp add: pay_scenario_1)
  ultimately show ?thesis using clamped by simp
qed

subsection \<open>The checkout driver and the transaction log\<close>

lemma format_2f_50: "format_2f 50 = ''50.00''"
  by (simp add: format_2f_def round_half_even_def digit_char_def Let_def)

lemma fold_add_item_method:
  "payment_method (fold (\<lambda>(name, quantity, price) order. add_item order name quantity price) xs self)
     = payment_method self"
  by (induction xs arbitrary: self) (auto simp: add_item_def)

lemma collect_items_method: "payment_method (collect_items inp) = None"
  by (simp add: collect_items_def fold_add_item_method Order_init_def)

lemma total_price_wire: "total_price (wire_payment_method self pm) = total_price self"
  by (cases pm)
     (simp_all add: wire_payment_method_def set_payment_method_def set_discount_strategy_def
        total_price_def)

lemma pay_total_price:
  assumes "pay self d = Inr (ok, self')"
  shows "total_price self' = total_price self"
proof (cases "payment_method self")
  case None
  with assms show ?thesis by (simp add: pay_def)
next
  case (Some pm)
  show ?thesis
  proof (cases "fst (validate pm d)")
    case False
    with pay_invalid [OF Some] assms show ?thesis by simp
  next
    case True
    from validate_known [OF True] obtain k balance
      where "payer_id pm d = Some k" "ledger_of pm k = Some balance" by blast
    from pay_valid [OF Some True this] assms show ?thesis
      by (auto simp: total_price_paid split: if_splits)
  qed
qed

lemma main_with_method:
  assumes c: "(in_method_choice inp, pm) \<in>
               {(''1'', CreditCardPayment_init), (''2'', PayPalPayment_init),
                (''3'', CryptocurrencyPayment_init)}"
    and p: "pay (wire_payment_method (collect_items inp) pm) (collect_details pm inp)
              = Inr (success, order')"
  shows "main inp now logfile =
           (Inr (if success then ''Payment successful!'' else ''Payment failed.''),
            logfile @ [log_line now (str_replace ''Payment'' [] (class_name pm))
                         (total_price (collect_items inp)) success])"
proof -
  from pay_total_price [OF p] have tp: "total_price order' = total_price (collect_items inp)"
    by (simp add: total_price_wire)
  from c p tp show ?thesis
    by (auto simp: main_def Let_def FileLogger_init_def log_transaction_def)
qed

lemma collect_details_scenario_1:
  "collect_details CreditCardPayment_init scenario_1 = card_details"
  by (simp add: collect_details_def CreditCardPayment_init_def scenario_1_def card_details_def)

lemma scenario_1_choice: "in_method_choice scenario_1 = ''1''"
  by (simp add: scenario_1_def)

lemma total_price_scenario_1: "total_price (collect_items scenario_1) = 50"
proof -
  have "total_price scenario_1_order = total_price (collect_items scenario_1)"
    unfolding scenario_1_order_def by (rule total_price_wire)
  with scenario_1_amounts(1) show ?thesis by simp
qed

lemma log_line_scenario_1:
  "log_line now ''CreditCard'' 50 True = now @ '': CreditCard payment of $50.00 - Success''"
  by (simp add: log_line_def format_2f_50)

lemma main_scenario_1:
  "main scenario_1 now logfile =
     (Inr ''Payment successful!'',
      logfile @ [now @ '': CreditCard payment of $50.00 - Success''])"
proof -
  have p: "pay (wire_payment_method (collect_items scenario_1) CreditCardPayment_init)
             (collect_details CreditCardPayment_init scenario_1)
           = Inr (True, scenario_1_order\<lparr>payment_method :=
                  Some (CreditCardPayment [''1234567891234567'' \<mapsto> 480]),
                  status := ''paid''\<rparr>)"
    using pay_scenario_1 by (simp add: collect_details_scenario_1 scenario_1_order_def)
  have c: "(in_method_choice scenario_1, CreditCardPayment_init) \<in>
               {(''1'', CreditCardPayment_init), (''2'', PayPalPayment_init),
                (''3'', CryptocurrencyPayment_init)}"
    by (simp add: scenario_1_choice)
  from main_with_method [OF c p, of now logfile] show ?thesis
    by (simp add: CreditCardPayment_init_def total_price_scenario_1 log_line_scenario_1)
qed

text \<open>
  Claim C1, amended. Take a checkout run with menu choice 1, 2 or 3 in which
  \<^verbatim>\<open>Order.pay\<close> returns and \<^verbatim>\<open>main\<close> ends with its message. The line that the run
  adds to the transaction log has the form
  \<^verbatim>\<open><time>: <label> payment of $<amount> - <Success|Failure>\<close>, where the label is the
  class name of the payment method without \<^verbatim>\<open>Payment\<close>, that is \<^verbatim>\<open>CreditCard\<close>,
  \<^verbatim>\<open>PayPal\<close> or \<^verbatim>\<open>Cryptocurrency\<close>, and the last word tells what \<^verbatim>\<open>pay\<close> returned.
  Which amount the line shows is left open here.
\<close>

theorem checkout_log_label:
  "(in_method_choice inp = ''1'' \<and>
    pay (wire_payment_method (collect_items inp) CreditCardPayment_init)
        (collect_details CreditCardPayment_init inp) = Inr (success, order') \<and>
    fst (main inp now logfile) = Inr message \<longrightarrow>
      (\<exists>amount. snd (main inp now logfile) =
                  logfile @ [log_line now ''CreditCard'' amount success])) \<and>
   (in_method_choice inp = ''2'' \<and>
    pay (wire_payment_method (collect_items inp) PayPalPayment_init)
        (collect_details PayPalPayment_init inp) = Inr (success, order') \<and>
    fst (main inp now logfile) = Inr message \<longrightarrow>
      (\<exists>amount. snd (main inp now logfile) =
                  logfile @ [log_line now ''PayPal'' amount success])) \<and>
   (in_method_choice inp = ''3'' \<and>
    pay (wire_payment_method (collect_items inp) CryptocurrencyPayment_init)
        (collect_details CryptocurrencyPayment_init inp) = Inr (success, order') \<and>
    fst (main inp now logfile) = Inr message \<longrightarrow>
      (\<exists>amount. snd (main inp now logfile) =
                  logfile @ [log_line now ''Cryptocurrency'' amount success]))"
proof -
  have step: "\<exists>amount. snd (main inp now logfile) =
                logfile @ [log_line now (str_replace ''Payment'' [] (class_name pm))
                             amount success]"
    if c: "(in_method_choice inp, pm) \<in>
               {(''1'', CreditCardPayment_init), (''2'', PayPalPayment_init),
                (''3'', CryptocurrencyPayment_init)}"
      and p: "pay (wire_payment_method (collect_items inp) pm) (collect_details pm inp)
                = Inr (success, order')" for pm
  proof -
    from main_with_method [OF c p, of now logfile]
    have "snd (main inp now logfile) =
            logfile @ [log_line now (str_replace ''Payment'' [] (class_name pm))
                         (total_price (collect_items inp)) success]"
      by simp
    then show ?thesis by blast
  qed
  have l1: "str_replace ''Payment'' [] (class_name CreditCardPayment_init) = ''CreditCard''"
    by (simp add: CreditCardPayment_init_def)
  have l2: "str_replace ''Payment'' [] (class_name PayPalPayment_init) = ''PayPal''"
    by (simp add: PayPalPayment_init_def)
  have l3: "str_replace ''Payment'' [] (class_name CryptocurrencyPayment_init) = ''Cryptocurrency''"
    by (simp add: CryptocurrencyPayment_init_def)
  have "in_method_choice inp = ''1'' \<and>
    pay (wire_payment_method (collect_items inp) CreditCardPayment_init)
        (collect_details CreditCardPayment_init inp) = Inr (success, order') \<and>
    fst (main inp now logfile) = Inr message \<longrightarrow>
      (\<exists>amount. snd (main inp now logfile) =
                  logfile @ [log_line now ''CreditCard'' amount success])"
    using step [of CreditCardPayment_init] by (simp add: l1)
  moreover have "in_method_choice inp = ''2'' \<and>
    pay (wire_payment_method (collect_items inp) PayPalPayment_init)
        (collect_details PayPalPayment_init inp) = Inr (success, order') \<and>
    fst (main inp now logfile) = Inr message \<longrightarrow>
      (\<exists>amount. snd (main inp now logfile) =
                  logfile @ [log_line now ''PayPal'' amount success])"
    using step [of PayPalPayment_init] by (simp add: l2)
  moreover have "in_method_choice inp = ''3'' \<and>
    pay (wire_payment_method (collect_items inp) CryptocurrencyPayment_init)
        (collect_details CryptocurrencyPayment_init inp) = Inr (success, order') \<and>
    fst (main inp now logfile) = Inr message \<longrightarrow>
      (\<exists>amount. snd (main inp now logfile) =
                  logfile @ [log_line now ''Cryptocurrency'' amount success])"
    using step [of CryptocurrencyPayment_init] by (simp add: l3)
  ultimately show ?thesis by (intro conjI)
qed

text \<open>
  In the first scenario (one item, quantity 2 at 25.00, the approved card with balance 500)
  \<^verbatim>\<open>pay\<close> returns \<^verbatim>\<open>True\<close>, \<^verbatim>\<open>main\<close> ends with its message, and the logged line reads
  \<^verbatim>\<open><time>: CreditCard payment of $<amount> - Success\<close>.
\<close>

theorem checkout_log_label_witness:
  "\<exists>amount. snd (main scenario_1 ''2024-05-01 10:00:00.000000'' []) =
     [''2024-05-01 10:00:00.000000: CreditCard payment of $'' @ format_2f amount @
      '' - Success'']"
proof -
  let ?paid = "scenario_1_order\<lparr>payment_method :=
                  Some (CreditCardPayment [''1234567891234567'' \<mapsto> 480]),
                  status := ''paid''\<rparr>"
  have p: "pay (wire_payment_method (collect_items scenario_1) CreditCardPayment_init)
             (collect_details CreditCardPayment_init scenario_1) = Inr (True, ?paid)"
    using pay_scenario_1 by (simp add: collect_details_scenario_1 scenario_1_order_def)
  have m: "fst (main scenario_1 ''2024-05-01 10:00:00.000000'' []) = Inr ''Payment successful!''"
    by (simp add: main_scenario_1)
  have hyps: "in_method_choice scenario_1 = ''1'' \<and>
    pay (wire_payment_method (collect_items scenario_1) CreditCardPayment_init)
        (collect_details CreditCardPayment_init scenario_1) = Inr (True, ?paid) \<and>
    fst (main scenario_1 ''2024-05-01 10:00:00.000000'' []) = Inr ''Payment successful!''"
    using scenario_1_choice p m by (intro conjI)
  note t = checkout_log_label
    [of scenario_1 True ?paid "''2024-05-01 10:00:00.000000''" "[]" "''Payment successful!''",
      THEN conjunct1, rule_format, OF hyps]
  then obtain amount where
    "snd (main scenario_1 ''2024-05-01 10:00:00.000000'' []) =
       [] @ [log_line ''2024-05-01 10:00:00.000000'' ''CreditCard'' amount True]"
    by blast
  then have "snd (main scenario_1 ''2024-05-01 10:00:00.000000'' []) =
     [''2024-05-01 10:00:00.000000: CreditCard payment of $'' @ format_2f amount @
      '' - Success'']"
    by (simp add: log_line_def)
  then show ?thesis by blast
qed

text \<open>
  In that scenario 20.00 is charged and the balance goes from 500 to 480, but the logged
  line names \<^verbatim>\<open>CreditCard\<close> and 50.00: it does not end with
  \<^verbatim>\<open>Credit payment of $20.00 - Success\<close>.
\<close>

theorem log_records_charged_amount_counterexample:
  "final_amount scenario_1_order = 20 \<and>
   pay scenario_1_order card_details =
     Inr (True, scenario_1_order\<lparr>payment_method :=
                  Some (CreditCardPayment [''1234567891234567'' \<mapsto> 480]),
                  status := ''paid''\<rparr>) \<and>
   snd (main scenario_1 ''2024-05-01 10:00:00.000000'' []) =
     [''2024-05-01 10:00:00.000000: CreditCard payment of $50.00 - Success''] \<and>
   \<not> suffix ''Credit payment of $20.00 - Success''
        ''2024-05-01 10:00:00.000000: CreditCard payment of $50.00 - Success''"
proof -
  have "\<not> suffix ''Credit payment of $20.00 - Success''
        ''2024-05-01 10:00:00.000000: CreditCard payment of $50.00 - Success''"
    by (simp add: suffix_to_prefix)
  with main_scenario_1 [of "''2024-05-01 10:00:00.000000''" "[]"] pay_scenario_1
  show ?thesis by (simp add: scenario_1_amounts)
qed

text \<open>
  Claim C2 says that every payment attempt, the cash path included, appends exactly one
  line to the log. The code does not do so on the cash path: with menu choice 4, after
  \<^verbatim>\<open>pay\<close> has returned, \<^verbatim>\<open>main\<close> instantiates the abstract class
  \<^verbatim>\<open>TransactionLogger\<close> instead of \<^verbatim>\<open>FileLogger\<close>, which raises \<^verbatim>\<open>TypeError\<close>; the run
  ends there and the log is as it was, with no line appended.
\<close>

theorem cash_checkout_raises:
  "in_method_choice inp = ''4'' \<Longrightarrow> main inp now logfile = (Inl TypeError, logfile)"
proof -
  assume cash: "in_method_choice inp = ''4''"
  have paid: "pay (collect_items inp) [''name'' \<mapsto> in_name inp, ''address'' \<mapsto> in_address inp]
                = Inr (True, collect_items inp)"
    by (simp add: pay_def collect_items_method)
  from cash paid show ?thesis
    by (simp add: main_def Let_def TransactionLogger_init_def)
qed

theorem cash_checkout_raises_witness:
  "main (scenario_1\<lparr>in_method_choice := ''4''\<rparr>) ''2024-05-01 10:00:00.000000'' [] =
     (Inl TypeError, [])"
  using cash_checkout_raises [of "scenario_1\<lparr>in_method_choice := ''4''\<rparr>"
           "''2024-05-01 10:00:00.000000''" "[]"]
  by simp

end
